theory Spec2Isabelle
  imports Complex_Main
begin

section \<open>The embeddings service (embeddings-service/main.py)\<close>

text \<open>
  The service is a module of two request handlers, \<open>health\<close> and \<open>embed\<close>, around one
  module-level model object. The model object comes from a third-party library; the
  handlers only call its \<open>encode\<close> method. The embedding below keeps that boundary: the
  handlers are translated line by line, and the model object is a parameter.
\<close>

subsection \<open>Module-level constants and data classes\<close>

text \<open>\<^verbatim>\<open>MODEL_NAME = "sentence-transformers/all-MiniLM-L6-v2"\<close>\<close>

definition MODEL_NAME :: string where
  "MODEL_NAME = ''sentence-transformers/all-MiniLM-L6-v2''"

text \<open>
  \<^verbatim>\<open>class EmbedRequest(BaseModel):  texts: List[str]\<close>

  \<^verbatim>\<open>class EmbedResponse(BaseModel): model: str; dim: int; vectors: List[List[float]]\<close>

  The handler never inspects a component of a vector, so the type of the components
  (Python's \<open>float\<close>) is the type parameter \<open>'f\<close>.
\<close>

record EmbedRequest =
  texts :: "string list"

record 'f EmbedResponse =
  model :: string
  dim :: int
  vectors :: "'f list list"

subsection \<open>Exceptions and the model object\<close>

text \<open>
  An exception is a value. \<open>IndexError\<close> is what Python raises for \<open>xs[i]\<close> out of
  range; \<open>LibraryError\<close> stands for whatever the model library raises.
\<close>

datatype py_error = IndexError | LibraryError string

text \<open>
  The model object, as the handler uses it: the value of
  \<^verbatim>\<open>model.encode(texts, normalize_embeddings=b).tolist()\<close>, a list of lists of
  floats, or the exception the call raised. The second argument is the
  \<open>normalize_embeddings\<close> flag.
\<close>

type_synonym 'f encoder = "string list \<Rightarrow> bool \<Rightarrow> py_error + 'f list list"

text \<open>
  \<^verbatim>\<open>model = SentenceTransformer(MODEL_NAME)\<close>, executed once when the module is
  imported. The constructor is a parameter too; when it raises, the import fails and
  there is no process.
\<close>

type_synonym 'f loader = "string \<Rightarrow> py_error + 'f encoder"

record 'f process =
  loaded_model :: "'f encoder"

definition startup :: "'f loader \<Rightarrow> py_error + 'f process" where
  "startup SentenceTransformer =
     (case SentenceTransformer MODEL_NAME of
        Inl e \<Rightarrow> Inl e
      | Inr m \<Rightarrow> Inr \<lparr>loaded_model = m\<rparr>)"

subsection \<open>The handlers\<close>

text \<open>Python's \<open>xs[i]\<close> for a non-negative index: out of range raises.\<close>

definition py_getitem :: "'a list \<Rightarrow> nat \<Rightarrow> py_error + 'a" where
  "py_getitem xs i = (if i < length xs then Inr (xs ! i) else Inl IndexError)"

definition len :: "'a list \<Rightarrow> int" where
  "len xs = int (length xs)"

text \<open>
  \<^verbatim>\<open>def health(): return {"status": "ok", "model": MODEL_NAME}\<close>

  The returned dict, as the list of its items in insertion order.
\<close>

definition health :: "(string \<times> string) list" where
  "health = [(''status'', ''ok''), (''model'', MODEL_NAME)]"

text \<open>
  \<^verbatim>\<open>
  def embed(req: EmbedRequest):
      vectors = model.encode(req.texts, normalize_embeddings=True).tolist()
      return {
          "model": MODEL_NAME,
          "dim": len(vectors[0]) if vectors else 0,
          "vectors": vectors
      }
  \<close>
  An exception of \<open>encode\<close> leaves the handler as it is (there is no \<open>try\<close>). The
  conditional expression evaluates \<open>vectors[0]\<close> only when \<open>vectors\<close> is a non-empty
  list.
\<close>

definition embed :: "'f encoder \<Rightarrow> EmbedRequest \<Rightarrow> py_error + 'f EmbedResponse" where
  "embed encode req =
     (case encode (texts req) True of
        Inl e \<Rightarrow> Inl e
      | Inr vs \<Rightarrow>
          (case (if vs \<noteq> []
                 then (case py_getitem vs 0 of Inl e \<Rightarrow> Inl e | Inr v \<Rightarrow> Inr (len v))
                 else Inr 0) of
             Inl e \<Rightarrow> Inl e
           | Inr d \<Rightarrow> Inr \<lparr>model = MODEL_NAME, dim = d, vectors = vs\<rparr>))"

subsection \<open>The contract of the model library\<close>

text \<open>
  Modelled from the spec: the behaviour of \<open>encode\<close>, which belongs to the model library
  and is not part of the service's source. The contract says, of a call that returns:
  there is one vector per input text, in the same order, and every vector has the fixed
  dimensionality \<open>D\<close> of the loaded model. \<open>E b t v\<close> reads "\<open>v\<close> is an embedding of the
  text \<open>t\<close> by the loaded model" (normalised when \<open>b\<close>); \<open>list_all2\<close> pairs the texts
  and the vectors position by position.
\<close>

definition encode_contract ::
    "(bool \<Rightarrow> string \<Rightarrow> 'f list \<Rightarrow> bool) \<Rightarrow> nat \<Rightarrow> 'f encoder \<Rightarrow> bool" where
  "encode_contract E D encode \<longleftrightarrow>
     (\<forall>ts b vs. encode ts b = Inr vs \<longrightarrow>
        list_all2 (E b) ts vs \<and> list_all (\<lambda>v. length v = D) vs)"

subsection \<open>Floats and normalisation\<close>

text \<open>
  A value of Python's \<open>float\<close>, the component type of \<open>vectors: List[List[float]]\<close>:
  a finite number, an infinity or a NaN. Rounding is not modelled; a statement about a
  norm allows a tolerance instead.
\<close>

datatype pyfloat = Finite real | PosInf | NegInf | NaN

fun is_finite :: "pyfloat \<Rightarrow> bool" where
  "is_finite (Finite r) = True"
| "is_finite _ = False"

fun is_nan :: "pyfloat \<Rightarrow> bool" where
  "is_nan NaN = True"
| "is_nan _ = False"

fun the_real :: "pyfloat \<Rightarrow> real" where
  "the_real (Finite r) = r"
| "the_real _ = 0"

text \<open>
  Modelled from the spec: the L2 (Euclidean) norm of a vector, the square root of the
  sum of the squares of its components. As in float arithmetic, a NaN component makes
  the norm NaN and, without one, an infinite component makes it infinite.
\<close>

definition l2norm :: "pyfloat list \<Rightarrow> pyfloat" where
  "l2norm v =
     (if list_ex is_nan v then NaN
      else if list_all is_finite v
      then Finite (sqrt (sum_list (map (\<lambda>x. (the_real x)\<^sup>2) v)))
      else PosInf)"

text \<open>A float is approximately 1.0: finite and within the tolerance \<open>eps\<close> of 1.\<close>

definition approx_one :: "real \<Rightarrow> pyfloat \<Rightarrow> bool" where
  "approx_one eps x = (case x of Finite r \<Rightarrow> \<bar>r - 1\<bar> \<le> eps | _ \<Rightarrow> False)"

text \<open>
  Modelled from the spec: the normalisation clause of the contract of \<open>encode\<close>. The
  vectors that \<open>encode\<close> gives with normalisation enabled (the flag of \<open>E\<close> is \<open>True\<close>)
  have L2 norm 1 within the tolerance; nothing is said of a call with the flag off.
\<close>

definition normalized_when_enabled ::
    "real \<Rightarrow> (bool \<Rightarrow> string \<Rightarrow> pyfloat list \<Rightarrow> bool) \<Rightarrow> bool" where
  "normalized_when_enabled eps E \<longleftrightarrow> (\<forall>t v. E True t v \<longrightarrow> approx_one eps (l2norm v))"

subsection \<open>The web framework around the handlers\<close>

text \<open>
  Modelled from the spec: the framework that parses the request body, validates it
  against the declared type of the handler's parameter, calls the handler, and turns
  its return value or its exception into an HTTP response. None of it is in the
  service's source, which only declares the routes and the types.
\<close>

datatype json =
  JNull | JBool bool | JNum rat | JStr string | JArr "json list" | JObj "(string \<times> json) list"

fun is_JStr :: "json \<Rightarrow> bool" where
  "is_JStr (JStr s) = True"
| "is_JStr _ = False"

fun is_JArr :: "json \<Rightarrow> bool" where
  "is_JArr (JArr xs) = True"
| "is_JArr _ = False"

fun the_JStr :: "json \<Rightarrow> string" where
  "the_JStr (JStr s) = s"
| "the_JStr _ = []"

text \<open>A member of a JSON object; of two members with one name the later one counts.\<close>

definition get_member :: "(string \<times> json) list \<Rightarrow> string \<Rightarrow> json option" where
  "get_member kvs k = map_of (rev kvs) k"

text \<open>
  Modelled from the spec: the validation of a body against \<open>EmbedRequest\<close>
  (\<open>texts: List[str]\<close>). The body is rejected when \<open>texts\<close> is missing, is not an array,
  or has an element that is not a string; the message names the violated constraint.
\<close>

definition validate_EmbedRequest :: "json \<Rightarrow> string + EmbedRequest" where
  "validate_EmbedRequest body =
     (case body of
        JObj kvs \<Rightarrow>
          (case get_member kvs ''texts'' of
             None \<Rightarrow> Inl ''texts: field required''
           | Some (JArr xs) \<Rightarrow>
               if list_all is_JStr xs then Inr \<lparr>texts = map the_JStr xs\<rparr>
               else Inl ''texts: every element must be a string''
           | Some _ \<Rightarrow> Inl ''texts: must be an array'')
      | _ \<Rightarrow> Inl ''body: must be a JSON object'')"

datatype http_request = GET_health | POST_embed json

datatype 'f content =
  HealthJson "(string \<times> string) list" | EmbedJson "'f EmbedResponse" | ErrorJson string

record 'f http_response =
  status :: nat
  body :: "'f content"

text \<open>
  Modelled from the spec: the two routes. A handler's return value is sent with status
  200, a validation failure with a client error status (422) and its message, an
  exception of the handler with a server error status (500).
\<close>

definition get_health :: "'f http_response" where
  "get_health = \<lparr>status = 200, body = HealthJson health\<rparr>"

definition post_embed :: "'f encoder \<Rightarrow> json \<Rightarrow> 'f http_response" where
  "post_embed encode b =
     (case validate_EmbedRequest b of
        Inl msg \<Rightarrow> \<lparr>status = 422, body = ErrorJson msg\<rparr>
      | Inr req \<Rightarrow>
          (case embed encode req of
             Inl e \<Rightarrow> \<lparr>status = 500, body = ErrorJson ''Internal Server Error''\<rparr>
           | Inr resp \<Rightarrow> \<lparr>status = 200, body = EmbedJson resp\<rparr>))"

text \<open>
  Modelled from the spec: a running process answers its requests one after the other.
  Handling a request returns the response and the process state for the next request;
  no handler assigns to the module-level model, so the state comes back as it was.
\<close>

definition handle :: "'f process \<Rightarrow> http_request \<Rightarrow> 'f http_response \<times> 'f process" where
  "handle p r =
     (case r of
        GET_health \<Rightarrow> (get_health, p)
      | POST_embed b \<Rightarrow> (post_embed (loaded_model p) b, p))"

fun serve :: "'f process \<Rightarrow> http_request list \<Rightarrow> 'f http_response list" where
  "serve p [] = []"
| "serve p (r # rs) = (case handle p r of (resp, p') \<Rightarrow> resp # serve p' rs)"

subsection \<open>Model objects for the examples\<close>

text \<open>
  Three stand-ins for the model object, with integer components: one that embeds every
  text on its own (in two dimensions), one that returns rows of different lengths, and
  one whose \<open>encode\<close> raises.
\<close>

definition length_embedding :: "bool \<Rightarrow> string \<Rightarrow> int list" where
  "length_embedding b t = [int (length t), if b then 1 else 0]"

definition length_encoder :: "int encoder" where
  "length_encoder ts b = Inr (map (length_embedding b) ts)"

definition ragged_encoder :: "int encoder" where
  "ragged_encoder ts b = Inr [[1, 2], [3]]"

definition failing_encoder :: "int encoder" where
  "failing_encoder ts b = Inl (LibraryError ''out of memory'')"



definition axis_embedding :: "bool \<Rightarrow> string \<Rightarrow> pyfloat list" where
  "axis_embedding b t =
     (if b then [Finite (3 / 5), Finite (4 / 5)] else [Finite 3, Finite 4])"

definition is_axis_embedding :: "bool \<Rightarrow> string \<Rightarrow> pyfloat list \<Rightarrow> bool" where
  "is_axis_embedding b t v \<longleftrightarrow> v = axis_embedding b t"

definition axis_encoder :: "pyfloat encoder" where
  "axis_encoder ts b = Inr (map (axis_embedding b) ts)"

section \<open>Properties\<close>

lemma embed_returns:
  assumes "encode (texts req) True = Inr vs"
  shows "embed encode req =
    Inr \<lparr>model = MODEL_NAME, dim = (if vs = [] then 0 else len (hd vs)), vectors = vs\<rparr>"
  using assms by (cases vs) (simp_all add: embed_def py_getitem_def)

lemma embed_raises:
  assumes "encode (texts req) True = Inl e"
  shows "embed encode req = Inl e"
  using assms by (simp add: embed_def)

lemma length_encoder_contract:
  "encode_contract (\<lambda>b t v. v = length_embedding b t) 2 length_encoder"
  by (auto simp: encode_contract_def length_encoder_def length_embedding_def
      list_all2_conv_all_nth list_all_iff)

lemma embed_dim_first:
  assumes "encode (texts req) True = Inr vs" and "vs \<noteq> []"
  shows "embed encode req = Inr \<lparr>model = MODEL_NAME, dim = len (vs ! 0), vectors = vs\<rparr>"
  using assms by (simp add: embed_returns hd_conv_nth)

lemma handle_process: "snd (handle p r) = p"
  by (simp add: handle_def split: http_request.split)

lemma serve_append: "serve p (rs @ rs') = serve p rs @ serve p rs'"
proof (induction rs)
  case Nil
  show ?case by simp
next
  case (Cons r rs)
  obtain resp p' where h: "handle p r = (resp, p')" by (cases "handle p r")
  with handle_process [of p r] have "p' = p" by simp
  with h Cons show ?case by simp
qed

lemma post_embed_invalid:
  assumes "validate_EmbedRequest b = Inl msg"
  shows "post_embed encode b = \<lparr>status = 422, body = ErrorJson msg\<rparr>"
  using assms by (simp add: post_embed_def)


lemma axis_encoder_contract: "encode_contract is_axis_embedding 2 axis_encoder"
  by (auto simp: encode_contract_def axis_encoder_def axis_embedding_def
      is_axis_embedding_def list_all2_conv_all_nth list_all_iff)

lemma axis_unit_norm: "l2norm [Finite (3 / 5), Finite (4 / 5)] = Finite 1"
proof -
  have "((3 / 5 :: real))\<^sup>2 + (4 / 5)\<^sup>2 = 1" by (simp add: power2_eq_square)
  then show ?thesis by (simp add: l2norm_def)
qed

lemma axis_normalized: "normalized_when_enabled 0 is_axis_embedding"
  by (simp add: normalized_when_enabled_def is_axis_embedding_def axis_embedding_def
      axis_unit_norm approx_one_def)

lemma approx_one_finite:
  assumes "approx_one eps (l2norm v)"
  shows "list_all is_finite v"
  using assms by (simp add: approx_one_def l2norm_def split: if_splits)

text \<open>
  C9. The handler returns for every list of texts for which \<open>encode\<close> returns, the empty
  list included: \<open>vectors[0]\<close> is evaluated only under the guard, so no \<open>IndexError\<close>
  arises and a response is returned.
\<close>

theorem embed_total:
  assumes "encode (texts req) True = Inr vs"
  shows "\<exists>resp. embed encode req = Inr resp"
  using assms by (simp add: embed_returns)

theorem embed_total_witness:
  "length_encoder (texts \<lparr>texts = []\<rparr>) True = Inr [] \<and>
   (\<exists>resp. embed length_encoder \<lparr>texts = []\<rparr> = Inr resp)"
proof -
  have h: "length_encoder (texts \<lparr>texts = []\<rparr>) True = Inr []"
    by (simp add: length_encoder_def)
  from embed_total [where encode = length_encoder and req = "\<lparr>texts = []\<rparr>" and vs = "[]"] h
  show ?thesis by simp
qed

text \<open>
  C10. For a non-empty input answered with one vector per text, \<open>dim\<close> is the length of
  the first vector, and the vectors are returned as they came: nothing is assumed, and
  nothing checked, about the lengths of the other vectors.
\<close>

theorem embed_dim_first_vector:
  assumes "texts req \<noteq> []"
    and "encode (texts req) True = Inr vs"
    and "length vs = length (texts req)"
  shows "embed encode req = Inr \<lparr>model = MODEL_NAME, dim = len (vs ! 0), vectors = vs\<rparr>"
proof -
  from assms(1,3) have "vs \<noteq> []" by auto
  with assms(2) show ?thesis by (rule embed_dim_first)
qed

theorem embed_dim_first_vector_witness:
  "texts \<lparr>texts = [''a'', ''b'']\<rparr> \<noteq> [] \<and>
   ragged_encoder (texts \<lparr>texts = [''a'', ''b'']\<rparr>) True = Inr [[1, 2], [3]] \<and>
   length [[1, 2], [3::int]] = length (texts \<lparr>texts = [''a'', ''b'']\<rparr>) \<and>
   embed ragged_encoder \<lparr>texts = [''a'', ''b'']\<rparr> =
     Inr \<lparr>model = MODEL_NAME, dim = 2, vectors = [[1, 2], [3]]\<rparr> \<and>
   len ([[1, 2], [3::int]] ! 1) = 1"
proof -
  have h1: "texts \<lparr>texts = [''a'', ''b'']\<rparr> \<noteq> []" by simp
  have h2: "ragged_encoder (texts \<lparr>texts = [''a'', ''b'']\<rparr>) True = Inr [[1, 2], [3]]"
    by (simp add: ragged_encoder_def)
  have h3: "length [[1, 2], [3::int]] = length (texts \<lparr>texts = [''a'', ''b'']\<rparr>)" by simp
  from embed_dim_first_vector [where encode = ragged_encoder
      and req = "\<lparr>texts = [''a'', ''b'']\<rparr>" and vs = "[[1, 2], [3]]"] h1 h2 h3
  show ?thesis by (simp add: len_def)
qed

text \<open>
  C4. In a process that started (the model was loaded), the health route answers with
  status 200 and the body \<open>{"status": "ok", "model": MODEL_NAME}\<close>, whatever requests
  the process has answered before; it reads no input.
\<close>

theorem health_always_ok:
  assumes "startup SentenceTransformer = Inr p"
  shows "serve p (rs @ [GET_health]) =
           serve p rs @
           [\<lparr>status = 200, body = HealthJson [(''status'', ''ok''), (''model'', MODEL_NAME)]\<rparr>]"
  by (simp add: serve_append handle_def get_health_def health_def)

theorem health_always_ok_witness:
  "startup (\<lambda>name. Inr failing_encoder) = Inr \<lparr>loaded_model = failing_encoder\<rparr> \<and>
   serve \<lparr>loaded_model = failing_encoder\<rparr>
     ([POST_embed (JObj [(''texts'', JArr [JStr ''hello''])])] @ [GET_health]) =
   serve \<lparr>loaded_model = failing_encoder\<rparr>
     [POST_embed (JObj [(''texts'', JArr [JStr ''hello''])])] @
   [\<lparr>status = 200, body = HealthJson [(''status'', ''ok''), (''model'', MODEL_NAME)]\<rparr>]"
proof -
  have h: "startup (\<lambda>name. Inr failing_encoder) = Inr \<lparr>loaded_model = failing_encoder\<rparr>"
    by (simp add: startup_def)
  from health_always_ok [where SentenceTransformer = "\<lambda>name. Inr failing_encoder"
      and p = "\<lparr>loaded_model = failing_encoder\<rparr>"
      and rs = "[POST_embed (JObj [(''texts'', JArr [JStr ''hello''])])]"] h
  show ?thesis by simp
qed

text \<open>
  C2. When \<open>encode\<close> answers the empty list of texts with the empty list of vectors, the
  response to an empty \<open>texts\<close> has the model identifier, \<open>dim\<close> 0 and no vectors.
\<close>

theorem embed_empty:
  assumes "encode [] True = Inr []"
  shows "embed encode \<lparr>texts = []\<rparr> = Inr \<lparr>model = MODEL_NAME, dim = 0, vectors = []\<rparr>"
  using assms by (simp add: embed_returns)

theorem embed_empty_witness:
  "length_encoder [] True = Inr [] \<and>
   embed length_encoder \<lparr>texts = []\<rparr> = Inr \<lparr>model = MODEL_NAME, dim = 0, vectors = []\<rparr>"
proof -
  have h: "length_encoder [] True = Inr []" by (simp add: length_encoder_def)
  from embed_empty [where encode = length_encoder] h show ?thesis by simp
qed

text \<open>
  C1. Under the contract of \<open>encode\<close>, a request for which \<open>encode\<close> returns gets a
  response with as many vectors as texts, the vector at each position being an embedding
  of the text at that position, and every vector as long as \<open>dim\<close> says.
\<close>

theorem embed_one_vector_per_text:
  assumes "encode_contract E D encode"
    and "encode (texts req) True = Inr vs"
  shows "\<exists>resp. embed encode req = Inr resp \<and>
           length (vectors resp) = length (texts req) \<and>
           list_all2 (E True) (texts req) (vectors resp) \<and>
           (\<forall>v \<in> set (vectors resp). len v = dim resp)"
proof -
  from assms have pairs: "list_all2 (E True) (texts req) vs"
    and dims: "\<forall>v \<in> set vs. length v = D"
    by (auto simp: encode_contract_def list_all_iff)
  from pairs have n: "length vs = length (texts req)"
    by (simp add: list_all2_lengthD)
  have "\<forall>v \<in> set vs. len v = (if vs = [] then 0 else len (hd vs))"
  proof (cases vs)
    case Nil
    then show ?thesis by simp
  next
    case (Cons v0 rest)
    with dims show ?thesis by (simp add: len_def)
  qed
  with assms(2) pairs n show ?thesis by (simp add: embed_returns)
qed

theorem embed_one_vector_per_text_witness:
  "encode_contract (\<lambda>b t v. v = length_embedding b t) 2 length_encoder \<and>
   length_encoder (texts \<lparr>texts = [''hello'', ''hi'']\<rparr>) True = Inr [[5, 1], [2, 1]] \<and>
   (\<exists>resp. embed length_encoder \<lparr>texts = [''hello'', ''hi'']\<rparr> = Inr resp \<and>
      length (vectors resp) = length (texts \<lparr>texts = [''hello'', ''hi'']\<rparr>) \<and>
      list_all2 (\<lambda>t v. v = length_embedding True t)
        (texts \<lparr>texts = [''hello'', ''hi'']\<rparr>) (vectors resp) \<and>
      (\<forall>v \<in> set (vectors resp). len v = dim resp))"
proof -
  have h: "length_encoder (texts \<lparr>texts = [''hello'', ''hi'']\<rparr>) True = Inr [[5, 1], [2, 1]]"
    by (simp add: length_encoder_def length_embedding_def)
  from embed_one_vector_per_text [where encode = length_encoder
      and E = "\<lambda>b t v. v = length_embedding b t" and D = 2
      and req = "\<lparr>texts = [''hello'', ''hi'']\<rparr>" and vs = "[[5, 1], [2, 1]]"]
    length_encoder_contract h
  show ?thesis by simp
qed

text \<open>
  C5. Under the contract of \<open>encode\<close> with dimensionality \<open>D\<close>, every request with a
  non-empty \<open>texts\<close> that one process answers has \<open>dim = D\<close>: the value depends on the
  loaded model, not on the texts.
\<close>

theorem embed_dim_constant:
  assumes "encode_contract E D (loaded_model p)"
    and "texts req \<noteq> []"
    and "loaded_model p (texts req) True = Inr vs"
  shows "\<exists>resp. embed (loaded_model p) req = Inr resp \<and> dim resp = int D"
proof -
  from assms(1,3) have pairs: "list_all2 (E True) (texts req) vs"
    and dims: "\<forall>v \<in> set vs. length v = D"
    by (auto simp: encode_contract_def list_all_iff)
  from pairs assms(2) have "vs \<noteq> []" by auto
  with dims have "len (hd vs) = int D" by (simp add: len_def)
  with assms(3) \<open>vs \<noteq> []\<close> show ?thesis by (simp add: embed_returns)
qed

theorem embed_dim_constant_witness:
  "encode_contract (\<lambda>b t v. v = length_embedding b t) 2
     (loaded_model \<lparr>loaded_model = length_encoder\<rparr>) \<and>
   texts \<lparr>texts = [''hello'']\<rparr> \<noteq> [] \<and>
   loaded_model \<lparr>loaded_model = length_encoder\<rparr> (texts \<lparr>texts = [''hello'']\<rparr>) True
     = Inr [[5, 1]] \<and>
   (\<exists>resp. embed (loaded_model \<lparr>loaded_model = length_encoder\<rparr>) \<lparr>texts = [''hello'']\<rparr>
      = Inr resp \<and> dim resp = int 2)"
proof -
  have h1: "encode_contract (\<lambda>b t v. v = length_embedding b t) 2
     (loaded_model \<lparr>loaded_model = length_encoder\<rparr>)"
    using length_encoder_contract by simp
  have h2: "texts \<lparr>texts = [''hello'']\<rparr> \<noteq> []" by simp
  have h3: "loaded_model \<lparr>loaded_model = length_encoder\<rparr> (texts \<lparr>texts = [''hello'']\<rparr>) True
     = Inr [[5, 1]]"
    by (simp add: length_encoder_def length_embedding_def)
  from embed_dim_constant [where p = "\<lparr>loaded_model = length_encoder\<rparr>"
      and E = "\<lambda>b t v. v = length_embedding b t" and D = 2
      and req = "\<lparr>texts = [''hello'']\<rparr>" and vs = "[[5, 1]]"] h1 h2 h3
  show ?thesis by simp
qed




text \<open>
  C7. The handler calls \<open>encode\<close> with normalisation enabled. Under the contract of
  \<open>encode\<close>, whose vectors have L2 norm 1 within the tolerance \<open>eps\<close> when normalisation
  is enabled, a non-empty request that \<open>encode\<close> answers gets a response in which every
  component of every vector is finite and every vector has L2 norm 1 within \<open>eps\<close>.
\<close>

theorem embed_vectors_normalized:
  assumes "encode_contract E D encode"
    and "normalized_when_enabled eps E"
    and "texts req \<noteq> []"
    and "encode (texts req) True = Inr vs"
  shows "\<exists>resp. embed encode req = Inr resp \<and> vectors resp \<noteq> [] \<and>
           (\<forall>v \<in> set (vectors resp). list_all is_finite v \<and> approx_one eps (l2norm v))"
proof -
  from assms(1,4) have pairs: "list_all2 (E True) (texts req) vs"
    by (simp add: encode_contract_def)
  have norms: "approx_one eps (l2norm v)" if "v \<in> set vs" for v
  proof -
    from that obtain k where "k < length vs" and "vs ! k = v"
      by (auto simp: in_set_conv_nth)
    with pairs have "E True (texts req ! k) v"
      by (auto simp: list_all2_conv_all_nth)
    with assms(2) show ?thesis by (simp add: normalized_when_enabled_def)
  qed
  from pairs assms(3) have "vs \<noteq> []" by auto
  moreover from norms have "\<forall>v \<in> set vs. list_all is_finite v \<and> approx_one eps (l2norm v)"
    by (blast intro: approx_one_finite)
  ultimately show ?thesis using assms(4) by (simp add: embed_returns)
qed

theorem embed_vectors_normalized_witness:
  "encode_contract is_axis_embedding 2 axis_encoder \<and>
   normalized_when_enabled 0 is_axis_embedding \<and>
   texts \<lparr>texts = [''hello'']\<rparr> \<noteq> [] \<and>
   axis_encoder (texts \<lparr>texts = [''hello'']\<rparr>) True = Inr [[Finite (3 / 5), Finite (4 / 5)]] \<and>
   (\<exists>resp. embed axis_encoder \<lparr>texts = [''hello'']\<rparr> = Inr resp \<and> vectors resp \<noteq> [] \<and>
      (\<forall>v \<in> set (vectors resp). list_all is_finite v \<and> approx_one 0 (l2norm v)))"
proof -
  have h3: "texts \<lparr>texts = [''hello'']\<rparr> \<noteq> []" by simp
  have h4: "axis_encoder (texts \<lparr>texts = [''hello'']\<rparr>) True
      = Inr [[Finite (3 / 5), Finite (4 / 5)]]"
    by (simp add: axis_encoder_def axis_embedding_def)
  from embed_vectors_normalized [where encode = axis_encoder and E = is_axis_embedding
      and D = 2 and eps = 0 and req = "\<lparr>texts = [''hello'']\<rparr>"
      and vs = "[[Finite (3 / 5), Finite (4 / 5)]]"]
    axis_encoder_contract axis_normalized h3 h4
  show ?thesis by simp
qed

text \<open>
  C3. A body whose \<open>texts\<close> member is missing, is not an array, or is an array with an
  element that is not a string is answered with the client error status and a message;
  the handler is not called, and the process answers the requests that follow as before.
\<close>

theorem malformed_body_client_error:
  assumes "get_member kvs ''texts'' = None \<or>
           (\<exists>v. get_member kvs ''texts'' = Some v \<and> \<not> is_JArr v) \<or>
           (\<exists>xs. get_member kvs ''texts'' = Some (JArr xs) \<and> \<not> list_all is_JStr xs)"
  shows "\<exists>msg. msg \<noteq> [] \<and>
           handle p (POST_embed (JObj kvs)) = (\<lparr>status = 422, body = ErrorJson msg\<rparr>, p) \<and>
           serve p (POST_embed (JObj kvs) # rs) =
             \<lparr>status = 422, body = ErrorJson msg\<rparr> # serve p rs"
proof -
  from assms have "\<exists>msg. msg \<noteq> [] \<and> validate_EmbedRequest (JObj kvs) = Inl msg"
  proof (elim disjE exE conjE)
    assume "get_member kvs ''texts'' = None"
    then show ?thesis by (simp add: validate_EmbedRequest_def)
  next
    fix v
    assume "get_member kvs ''texts'' = Some v" and "\<not> is_JArr v"
    then show ?thesis by (cases v) (simp_all add: validate_EmbedRequest_def)
  next
    fix xs
    assume "get_member kvs ''texts'' = Some (JArr xs)" and "\<not> list_all is_JStr xs"
    then show ?thesis by (simp add: validate_EmbedRequest_def)
  qed
  then obtain msg where "msg \<noteq> []" and "validate_EmbedRequest (JObj kvs) = Inl msg"
    by blast
  then show ?thesis by (auto simp: handle_def post_embed_invalid)
qed

theorem malformed_body_client_error_witness:
  "(get_member [(''texts'', JArr [JNum 123])] ''texts'' = None \<or>
    (\<exists>v. get_member [(''texts'', JArr [JNum 123])] ''texts'' = Some v \<and> \<not> is_JArr v) \<or>
    (\<exists>xs. get_member [(''texts'', JArr [JNum 123])] ''texts'' = Some (JArr xs) \<and>
       \<not> list_all is_JStr xs)) \<and>
   (\<exists>msg. msg \<noteq> [] \<and>
      handle \<lparr>loaded_model = length_encoder\<rparr> (POST_embed (JObj [(''texts'', JArr [JNum 123])]))
        = (\<lparr>status = 422, body = ErrorJson msg\<rparr>, \<lparr>loaded_model = length_encoder\<rparr>) \<and>
      serve \<lparr>loaded_model = length_encoder\<rparr>
        (POST_embed (JObj [(''texts'', JArr [JNum 123])]) # [GET_health])
        = \<lparr>status = 422, body = ErrorJson msg\<rparr> #
          serve \<lparr>loaded_model = length_encoder\<rparr> [GET_health])"
proof -
  have h: "get_member [(''texts'', JArr [JNum 123])] ''texts'' = None \<or>
    (\<exists>v. get_member [(''texts'', JArr [JNum 123])] ''texts'' = Some v \<and> \<not> is_JArr v) \<or>
    (\<exists>xs. get_member [(''texts'', JArr [JNum 123])] ''texts'' = Some (JArr xs) \<and>
       \<not> list_all is_JStr xs)"
    by (simp add: get_member_def)
  from malformed_body_client_error [where kvs = "[(''texts'', JArr [JNum 123])]"
      and p = "\<lparr>loaded_model = length_encoder\<rparr>" and rs = "[GET_health]", OF h] h
  show ?thesis by blast
qed

text \<open>
  C8. When \<open>encode\<close> raises on the texts of a valid request, the handler raises the same
  exception, the route answers with the server error status, and the process answers
  the requests that follow as before.
\<close>

theorem encode_failure_server_error:
  assumes "validate_EmbedRequest b = Inr req"
    and "loaded_model p (texts req) True = Inl e"
  shows "embed (loaded_model p) req = Inl e \<and>
         handle p (POST_embed b) =
           (\<lparr>status = 500, body = ErrorJson ''Internal Server Error''\<rparr>, p) \<and>
         serve p (POST_embed b # rs) =
           \<lparr>status = 500, body = ErrorJson ''Internal Server Error''\<rparr> # serve p rs"
  using assms by (simp add: embed_raises handle_def post_embed_def)

theorem encode_failure_server_error_witness:
  "validate_EmbedRequest (JObj [(''texts'', JArr [JStr ''hello''])]) = Inr \<lparr>texts = [''hello'']\<rparr> \<and>
   loaded_model \<lparr>loaded_model = failing_encoder\<rparr> (texts \<lparr>texts = [''hello'']\<rparr>) True
     = Inl (LibraryError ''out of memory'') \<and>
   embed (loaded_model \<lparr>loaded_model = failing_encoder\<rparr>) \<lparr>texts = [''hello'']\<rparr>
     = Inl (LibraryError ''out of memory'') \<and>
   handle \<lparr>loaded_model = failing_encoder\<rparr> (POST_embed (JObj [(''texts'', JArr [JStr ''hello''])]))
     = (\<lparr>status = 500, body = ErrorJson ''Internal Server Error''\<rparr>,
        \<lparr>loaded_model = failing_encoder\<rparr>) \<and>
   serve \<lparr>loaded_model = failing_encoder\<rparr>
     (POST_embed (JObj [(''texts'', JArr [JStr ''hello''])]) # [GET_health])
     = \<lparr>status = 500, body = ErrorJson ''Internal Server Error''\<rparr> #
       serve \<lparr>loaded_model = failing_encoder\<rparr> [GET_health]"
proof -
  have h1: "validate_EmbedRequest (JObj [(''texts'', JArr [JStr ''hello''])])
      = Inr \<lparr>texts = [''hello'']\<rparr>"
    by (simp add: validate_EmbedRequest_def get_member_def)
  have h2: "loaded_model \<lparr>loaded_model = failing_encoder\<rparr> (texts \<lparr>texts = [''hello'']\<rparr>) True
      = Inl (LibraryError ''out of memory'')"
    by (simp add: failing_encoder_def)
  from encode_failure_server_error [where b = "JObj [(''texts'', JArr [JStr ''hello''])]"
      and req = "\<lparr>texts = [''hello'']\<rparr>" and p = "\<lparr>loaded_model = failing_encoder\<rparr>"
      and e = "LibraryError ''out of memory''" and rs = "[GET_health]", OF h1 h2] h1 h2
  show ?thesis by blast
qed

end
